theory Spec2Isabelle
  imports Main
begin

section \<open>Completions and errors\<close>

text \<open>
  A JavaScript call either returns or throws. Every function of the module that can throw
  returns the state it leaves behind together with its completion, so that the effects
  that happened before an exception stay visible.
\<close>

datatype error =
    CallbackError
  | TypeError
  | SyntaxError
  | ReferenceError string

datatype completion = Normal | Throw error

section \<open>The subscriber registry (\<^verbatim>\<open>callbacks\<close>, \<^verbatim>\<open>on\<close>, \<^verbatim>\<open>off\<close>, \<^verbatim>\<open>broadcast\<close>)\<close>

text \<open>
  \<^verbatim>\<open>const callbacks = {}\<close> maps a topic to the array of its callbacks. The map of the
  model holds the object's own properties. A callback is a function value and is compared
  by identity, so the model takes callbacks from an arbitrary type \<open>'cb\<close> of handles and
  compares handles with \<open>=\<close>.
\<close>

type_synonym topic = string

type_synonym 'cb registry = "topic \<rightharpoonup> 'cb list"

text \<open>
  An object literal inherits the properties of \<^verbatim>\<open>Object.prototype\<close>, and the \<^verbatim>\<open>in\<close>
  operator sees them: \<^verbatim>\<open>'toString' in {}\<close> is true. These are the names ECMAScript
  (with its Annex B) puts there. Reading such a name from an object that has no own
  property of that name gives the inherited value, a function or the prototype object,
  which has none of the array methods: calling \<^verbatim>\<open>push\<close>, \<^verbatim>\<open>indexOf\<close>, \<^verbatim>\<open>forEach\<close> or
  \<^verbatim>\<open>shift\<close> on it throws a TypeError. An own property of the map comes first.
\<close>

definition inherited :: "string list" where
  "inherited =
     [''constructor'', ''hasOwnProperty'', ''isPrototypeOf'', ''propertyIsEnumerable'',
      ''toLocaleString'', ''toString'', ''valueOf'', ''__proto__'',
      ''__defineGetter__'', ''__defineSetter__'', ''__lookupGetter__'', ''__lookupSetter__'']"

definition has_property :: "(string \<rightharpoonup> 'v) \<Rightarrow> string \<Rightarrow> bool" where
  "has_property obj name = (obj name \<noteq> None \<or> name \<in> set inherited)"





text \<open>
  What a callback does when it is called is the caller's code. The registry sees two
  things of it: that it was called with some data, and whether the call returned or threw.
  The predicate \<open>raises c d\<close> says that callback \<open>c\<close> throws when called with \<open>d\<close>.
  Callbacks that call \<^verbatim>\<open>on\<close> or \<^verbatim>\<open>off\<close> on the topic being broadcast while the
  broadcast runs are outside the model.

  \<^verbatim>\<open>callbacks[topic].forEach(callback => callback(data))\<close> calls the callbacks from the
  first to the last; there is no \<^verbatim>\<open>try\<close> in the module, so the first exception ends the
  loop and leaves \<^verbatim>\<open>broadcast\<close>. The result is the list of calls made, in order, and the
  completion.
\<close>

fun forEach :: "'cb list \<Rightarrow> ('cb \<Rightarrow> 'd \<Rightarrow> bool) \<Rightarrow> 'd \<Rightarrow> ('cb \<times> 'd) list \<times> completion" where
  "forEach [] raises d = ([], Normal)"
| "forEach (c # cs) raises d =
     (if raises c d then ([(c, d)], Throw CallbackError)
      else (let (calls, r) = forEach cs raises d in ((c, d) # calls, r)))"

text \<open>
  \<^verbatim>\<open>
  function broadcast(topic, data) {
    if (topic in callbacks) {
      callbacks[topic].forEach(callback => callback(data));
    }
  }
  \<close>
\<close>

definition broadcast ::
  "'cb registry \<Rightarrow> ('cb \<Rightarrow> 'd \<Rightarrow> bool) \<Rightarrow> topic \<Rightarrow> 'd \<Rightarrow> ('cb \<times> 'd) list \<times> completion" where
  "broadcast callbacks raises topic d =
     (if has_property callbacks topic then
        (case callbacks topic of
           None \<Rightarrow> ([], Throw TypeError)
         | Some cbs \<Rightarrow> forEach cbs raises d)
      else ([], Normal))"



text \<open>Callback behaviours used at concrete inputs: none throws; exactly callback \<open>1\<close> throws.\<close>

definition never_raises :: "nat \<Rightarrow> string \<Rightarrow> bool" where
  "never_raises c d = False"


section \<open>The host\<close>

text \<open>
  The parts of a call that are not code of the module are parameters of the model: whether
  a callback throws, \<^verbatim>\<open>JSON.stringify\<close> and \<^verbatim>\<open>JSON.parse\<close> (\<open>None\<close> when they
  throw), and the value \<^verbatim>\<open>undefined\<close>.
\<close>

record ('cb, 'd) host =
  cb_raises :: "'cb \<Rightarrow> 'd \<Rightarrow> bool"
  json_stringify :: "'d \<Rightarrow> string option"
  json_parse :: "string \<Rightarrow> 'd option"
  undefined_value :: 'd

text \<open>
  The execution context at load time: the names of the properties of \<^verbatim>\<open>window\<close>
  (\<open>None\<close> when \<^verbatim>\<open>typeof window\<close> is \<^verbatim>\<open>'undefined'\<close>), and the names bound in the
  global scope.
\<close>

record environment =
  window :: "string list option"
  globals :: "string list"

section \<open>The state of one tab\<close>

text \<open>
  A \<^verbatim>\<open>storage\<close> event as the listeners read it. \<open>key\<close> is \<open>None\<close> for the event of
  \<^verbatim>\<open>clear()\<close>.
\<close>

record storage_event =
  key :: "string option"
  oldValue :: "string option"
  newValue :: "string option"

text \<open>
  The state a tab's calls read and change: the registry, the pending queue of the
  storage transport (\<^verbatim>\<open>const queue = {}\<close>), the content of \<^verbatim>\<open>window.localStorage\<close>,
  and the effects that leave the tab, each in the order it happened: the \<^verbatim>\<open>storage\<close>
  events its writes fire in the other tabs, the messages it posts to a channel or port,
  the calls of its callbacks, and the console warnings.
\<close>

record ('cb, 'd) tab =
  callbacks :: "'cb registry"
  queue :: "string \<rightharpoonup> 'd list"
  storage :: "string \<rightharpoonup> string"
  fired :: "storage_event list"
  posted :: "(topic \<times> 'd) list"
  calls :: "('cb \<times> 'd) list"
  console :: "string list"

text \<open>
  \<^verbatim>\<open>Storage.setItem\<close> and \<^verbatim>\<open>Storage.removeItem\<close>: a call that changes the store fires one
  event, with the old and the new value, in every other tab; a call that changes nothing
  fires none.
\<close>

definition setItem :: "('cb, 'd) tab \<Rightarrow> string \<Rightarrow> string \<Rightarrow> ('cb, 'd) tab" where
  "setItem st k v =
     (if storage st k = Some v then st
      else st\<lparr>storage := (storage st)(k \<mapsto> v),
              fired := fired st @ [\<lparr>key = Some k, oldValue = storage st k, newValue = Some v\<rparr>]\<rparr>)"

definition removeItem :: "('cb, 'd) tab \<Rightarrow> string \<Rightarrow> ('cb, 'd) tab" where
  "removeItem st k =
     (case storage st k of
        None \<Rightarrow> st
      | Some old \<Rightarrow>
          st\<lparr>storage := (storage st)(k := None),
             fired := fired st @ [\<lparr>key = Some k, oldValue = Some old, newValue = None\<rparr>]\<rparr>)"

text \<open>A local \<^verbatim>\<open>broadcast\<close> run in a tab: the calls it makes are added to the tab's calls.\<close>

definition local_broadcast ::
  "('cb, 'd) host \<Rightarrow> ('cb, 'd) tab \<Rightarrow> topic \<Rightarrow> 'd \<Rightarrow> ('cb, 'd) tab \<times> completion" where
  "local_broadcast h st topic d =
     (let (cs, r) = broadcast (callbacks st) (cb_raises h) topic d
      in (st\<lparr>calls := calls st @ cs\<rparr>, r))"

section \<open>The BroadcastChannel and SharedWorker transports\<close>

text \<open>
  \<^verbatim>\<open>
  function send(topic, data, includeSelf = false) {
    channel.postMessage({ topic, data });
    if (includeSelf) {
      broadcast(topic, data);
    }
  }
  \<close>
  The \<^verbatim>\<open>send\<close> of \<^verbatim>\<open>sharedWorkerApiFactory\<close> is the same with \<^verbatim>\<open>worker.port\<close> for
  \<^verbatim>\<open>channel\<close>.
\<close>

definition broadcastChannel_send ::
  "('cb, 'd) host \<Rightarrow> ('cb, 'd) tab \<Rightarrow> topic \<Rightarrow> 'd \<Rightarrow> bool \<Rightarrow> ('cb, 'd) tab \<times> completion" where
  "broadcastChannel_send h st topic d includeSelf =
     (let st1 = st\<lparr>posted := posted st @ [(topic, d)]\<rparr>
      in if includeSelf then local_broadcast h st1 topic d else (st1, Normal))"

definition sharedWorker_send ::
  "('cb, 'd) host \<Rightarrow> ('cb, 'd) tab \<Rightarrow> topic \<Rightarrow> 'd \<Rightarrow> bool \<Rightarrow> ('cb, 'd) tab \<times> completion" where
  "sharedWorker_send h st topic d includeSelf =
     (let st1 = st\<lparr>posted := posted st @ [(topic, d)]\<rparr>
      in if includeSelf then local_broadcast h st1 topic d else (st1, Normal))"

section \<open>The localStorage transport\<close>

definition prefix :: string where
  "prefix = ''__across-tabs:''"

text \<open>
  \<^verbatim>\<open>String.prototype.indexOf\<close> and \<^verbatim>\<open>String.prototype.replace\<close> with a string pattern
  (the first occurrence is replaced; the replacement used by the module is the empty
  string, which has no \<^verbatim>\<open>$\<close> pattern).
\<close>

fun starts_with :: "string \<Rightarrow> string \<Rightarrow> bool" where
  "starts_with s [] = True"
| "starts_with [] (c # p) = False"
| "starts_with (a # s) (c # p) = (a = c \<and> starts_with s p)"

fun str_indexOf :: "string \<Rightarrow> string \<Rightarrow> int" where
  "str_indexOf [] p = (if p = [] then 0 else - 1)"
| "str_indexOf (a # s) p =
     (if starts_with (a # s) p then 0
      else (let i = str_indexOf s p in if i < 0 then - 1 else i + 1))"

fun str_replace :: "string \<Rightarrow> string \<Rightarrow> string \<Rightarrow> string" where
  "str_replace [] p r = (if p = [] then r else [])"
| "str_replace (a # s) p r =
     (if starts_with (a # s) p then r @ drop (length p) (a # s)
      else a # str_replace s p r)"

text \<open>
  \<^verbatim>\<open>
  function send(topic, data, includeSelf = false) {
    const key = prefix + topic;
    if (storage.getItem(key) === null) {
      storage.setItem(key, JSON.stringify(data));
      storage.removeItem(key);
      if (includeSelf) {
        broadcast(topic, data);
      }
    } else {
      if (!((key) in queue)) {
        queue[key] = [];
      }
      queue[key].push(data);
    }
  }
  \<close>
\<close>

definition localStorage_send ::
  "('cb, 'd) host \<Rightarrow> ('cb, 'd) tab \<Rightarrow> topic \<Rightarrow> 'd \<Rightarrow> bool \<Rightarrow> ('cb, 'd) tab \<times> completion" where
  "localStorage_send h st topic d includeSelf =
     (let K = prefix @ topic in
      if storage st K = None then
        (case json_stringify h d of
           None \<Rightarrow> (st, Throw TypeError)
         | Some v \<Rightarrow>
             (let st1 = setItem st K v;
                  st2 = removeItem st1 K
              in if includeSelf then local_broadcast h st2 topic d else (st2, Normal)))
      else
        (let queue1 = (if \<not> has_property (queue st) K then (queue st)(K \<mapsto> [])
                       else queue st)
         in case queue1 K of
              None \<Rightarrow> (st, Throw TypeError)
            | Some q \<Rightarrow> (st\<lparr>queue := queue1(K \<mapsto> q @ [d])\<rparr>, Normal)))"


text \<open>
  The second \<^verbatim>\<open>storage\<close> listener (departure):
  \<^verbatim>\<open>
  window.addEventListener('storage', e => {
    if (e.key.indexOf(prefix) === 0 && e.newValue === null) {
      const topic = e.key.replace(prefix, '');
      if (topic in queue) {
        send(topic, queue[topic].shift());
        if (queue[topic].length === 0) {
          delete queue[topic];
        }
      }
    }
  });
  \<close>
  \<^verbatim>\<open>shift\<close> takes the first element off the array in place and returns it
  (\<^verbatim>\<open>undefined\<close> for an empty array); \<^verbatim>\<open>send\<close> is called with two arguments, so its
  \<^verbatim>\<open>includeSelf\<close> is the default \<^verbatim>\<open>false\<close>.
\<close>

definition departure_listener ::
  "('cb, 'd) host \<Rightarrow> ('cb, 'd) tab \<Rightarrow> storage_event \<Rightarrow> ('cb, 'd) tab \<times> completion" where
  "departure_listener h st e =
     (case key e of
        None \<Rightarrow> (st, Throw TypeError)
      | Some k \<Rightarrow>
          if str_indexOf k prefix = 0 \<and> newValue e = None then
            (let topic = str_replace k prefix []
             in if has_property (queue st) topic then
                  (case queue st topic of
                     None \<Rightarrow> (st, Throw TypeError)
                   | Some q \<Rightarrow>
                       (let d = (case q of [] \<Rightarrow> undefined_value h | x # xs \<Rightarrow> x);
                            st1 = st\<lparr>queue := (queue st)(topic \<mapsto> tl q)\<rparr>;
                            (st2, r) = localStorage_send h st1 topic d False
                        in if r \<noteq> Normal then (st2, r)
                           else if (case queue st2 topic of None \<Rightarrow> False | Some q2 \<Rightarrow> length q2 = 0)
                           then (st2\<lparr>queue := (queue st2)(topic := None)\<rparr>, Normal)
                           else (st2, Normal)))
                else (st, Normal))
          else (st, Normal))"




section \<open>The fallback transport\<close>

text \<open>
  \<^verbatim>\<open>
  function emptyApiFactory() {
    function noop() {
      if (typeof window !== 'undefined') console.warn('across-tabs messaging is not supported.');
    }
    return { on: noop, off: noop, send: noop };
  }
  \<close>
  The three operations are the same function, which reads none of its arguments.
\<close>

definition noop :: "environment \<Rightarrow> ('cb, 'd) tab \<Rightarrow> ('cb, 'd) tab \<times> completion" where
  "noop env st =
     (if window env \<noteq> None
      then (st\<lparr>console := console st @ [''across-tabs messaging is not supported.'']\<rparr>, Normal)
      else (st, Normal))"

datatype ('cb, 'd) api_call =
    On topic 'cb
  | Off topic "'cb option"
  | Send topic 'd bool

fun emptyApi ::
  "environment \<Rightarrow> ('cb, 'd) api_call \<Rightarrow> ('cb, 'd) tab \<Rightarrow> ('cb, 'd) tab \<times> completion" where
  "emptyApi env (On t c) st = noop env st"
| "emptyApi env (Off t c) st = noop env st"
| "emptyApi env (Send t d includeSelf) st = noop env st"

section \<open>The selector and the export\<close>

text \<open>
  The top level of the module declares \<^verbatim>\<open>API\<close> with \<^verbatim>\<open>const\<close> inside the blocks of
  an \<^verbatim>\<open>if\<close> chain and reads it after the chain. What it does depends on block
  scoping, so the top level is kept as a program: statements, and an interpreter for
  them with a chain of scopes.
\<close>

datatype factory =
    broadcastChannelApiFactory
  | sharedWorkerApiFactory
  | localStorageApiFactory
  | emptyApiFactory

datatype cond =
    TypeofWindowDefined
  | InWindow string
  | Literal bool
  | AndAlso cond cond

datatype stmt =
    ConstDecl string factory
  | IfElse cond "stmt list" "stmt list"
  | AssignExports string

text \<open>
  A value is the object a factory returned, or whatever the global scope binds to a name.
\<close>

datatype jsvalue = Api factory | GlobalValue string

record module_state =
  scopes :: "(string \<times> jsvalue) list list"
  instantiated :: "factory list"
  exports :: "jsvalue option"

text \<open>
  \<^verbatim>\<open>typeof window !== 'undefined'\<close> never throws; \<^verbatim>\<open>'X' in window\<close> throws a
  ReferenceError when there is no \<^verbatim>\<open>window\<close>; \<^verbatim>\<open>a && b\<close> evaluates \<open>b\<close> only when
  \<open>a\<close> is true.
\<close>

fun eval_cond :: "environment \<Rightarrow> cond \<Rightarrow> error + bool" where
  "eval_cond env TypeofWindowDefined = Inr (window env \<noteq> None)"
| "eval_cond env (InWindow x) =
     (case window env of
        None \<Rightarrow> Inl (ReferenceError ''window'')
      | Some props \<Rightarrow> Inr (x \<in> set props))"
| "eval_cond env (Literal b) = Inr b"
| "eval_cond env (AndAlso a b) =
     (case eval_cond env a of
        Inl e \<Rightarrow> Inl e
      | Inr va \<Rightarrow> if va then eval_cond env b else Inr False)"

text \<open>Name lookup: the innermost scope that binds the name wins.\<close>

fun lookup_scopes :: "string \<Rightarrow> (string \<times> jsvalue) list list \<Rightarrow> jsvalue option" where
  "lookup_scopes x [] = None"
| "lookup_scopes x (frame # frames) =
     (case map_of frame x of
        Some v \<Rightarrow> Some v
      | None \<Rightarrow> lookup_scopes x frames)"

definition declare_const :: "string \<Rightarrow> jsvalue \<Rightarrow> (string \<times> jsvalue) list list \<Rightarrow> (string \<times> jsvalue) list list" where
  "declare_const x v frames =
     (case frames of
        [] \<Rightarrow> [[(x, v)]]
      | frame # rest \<Rightarrow> ((x, v) # frame) # rest)"

text \<open>
  \<^item> \<^verbatim>\<open>const x = f()\<close> calls the factory and binds the result in the innermost scope.
  \<^item> \<^verbatim>\<open>if (c) { ... } else { ... }\<close> runs the chosen block in a new scope, which ends with
    the block.
  \<^item> \<^verbatim>\<open>module.exports = x\<close> resolves \<^verbatim>\<open>module\<close> first and then reads \<open>x\<close>, each
    through the scope chain and then the global scope; a name bound nowhere throws a
    ReferenceError. Where a loader provides \<^verbatim>\<open>module\<close>, the name is among the globals
    of the environment.
  A statement that throws ends the run.
\<close>

definition resolve :: "environment \<Rightarrow> string \<Rightarrow> (string \<times> jsvalue) list list \<Rightarrow> jsvalue option" where
  "resolve env x frames =
     (case lookup_scopes x frames of
        Some v \<Rightarrow> Some v
      | None \<Rightarrow> if x \<in> set (globals env) then Some (GlobalValue x) else None)"

fun exec :: "environment \<Rightarrow> stmt \<Rightarrow> module_state \<Rightarrow> module_state \<times> completion"
  and exec_seq :: "environment \<Rightarrow> stmt list \<Rightarrow> module_state \<Rightarrow> module_state \<times> completion" where
  "exec env (ConstDecl x f) st =
     (st\<lparr>scopes := declare_const x (Api f) (scopes st),
         instantiated := instantiated st @ [f]\<rparr>, Normal)"
| "exec env (IfElse c thn els) st =
     (case eval_cond env c of
        Inl e \<Rightarrow> (st, Throw e)
      | Inr b \<Rightarrow>
          (let (st1, r) = (if b then exec_seq env thn (st\<lparr>scopes := [] # scopes st\<rparr>)
                           else exec_seq env els (st\<lparr>scopes := [] # scopes st\<rparr>))
           in (st1\<lparr>scopes := tl (scopes st1)\<rparr>, r)))"
| "exec env (AssignExports x) st =
     (case resolve env ''module'' (scopes st) of
        None \<Rightarrow> (st, Throw (ReferenceError ''module''))
      | Some m \<Rightarrow>
          (case resolve env x (scopes st) of
             None \<Rightarrow> (st, Throw (ReferenceError x))
           | Some v \<Rightarrow> (st\<lparr>exports := Some v\<rparr>, Normal)))"
| "exec_seq env [] st = (st, Normal)"
| "exec_seq env (s # ss) st =
     (let (st1, r) = exec env s st
      in if r = Normal then exec_seq env ss st1 else (st1, r))"

text \<open>
  \<^verbatim>\<open>
  if (typeof window !== 'undefined') {
    if ('BroadcastChannel' in window) {
      const API = broadcastChannelApiFactory();
    } else if (false && 'SharedWorker' in window) {
      const API = sharedWorkerApiFactory();
    } else if ('localStorage' in window) {
      const API = localStorageApiFactory();
    } else {
      const API = emptyApiFactory();
    }
  } else {
    // Server side call
    const API = emptyApiFactory();
  }

  module.exports = API
  \<close>
  An \<^verbatim>\<open>else if\<close> is an \<^verbatim>\<open>else\<close> whose statement is the next \<^verbatim>\<open>if\<close>.
\<close>

definition module_body :: "stmt list" where
  "module_body =
     [IfElse TypeofWindowDefined
        [IfElse (InWindow ''BroadcastChannel'')
           [ConstDecl ''API'' broadcastChannelApiFactory]
           [IfElse (AndAlso (Literal False) (InWindow ''SharedWorker''))
              [ConstDecl ''API'' sharedWorkerApiFactory]
              [IfElse (InWindow ''localStorage'')
                 [ConstDecl ''API'' localStorageApiFactory]
                 [ConstDecl ''API'' emptyApiFactory]]]]
        [ConstDecl ''API'' emptyApiFactory],
      AssignExports ''API'']"

text \<open>Loading the module runs its top level once, in the module's own scope.\<close>

definition run_module :: "environment \<Rightarrow> module_state \<times> completion" where
  "run_module env = exec_seq env module_body \<lparr>scopes = [[]], instantiated = [], exports = None\<rparr>"

text \<open>
  The selection policy in the words of the specification: the direct-broadcast transport
  when its primitive is available, else the storage transport when the shared store is
  available, else the fallback; the worker transport is never chosen.
\<close>

definition available :: "environment \<Rightarrow> string \<Rightarrow> bool" where
  "available env primitive =
     (case window env of None \<Rightarrow> False | Some props \<Rightarrow> primitive \<in> set props)"

definition policy :: "environment \<Rightarrow> factory" where
  "policy env =
     (if available env ''BroadcastChannel'' then broadcastChannelApiFactory
      else if available env ''localStorage'' then localStorageApiFactory
      else emptyApiFactory)"

section \<open>Concrete inputs\<close>

text \<open>
  A host whose callbacks never throw and whose data are already JSON texts, a tab with one
  subscriber to the topic \<open>score\<close> and an empty store, and the same tab while the slot
  of that topic holds a value.
\<close>

definition plain_host :: "(nat, string) host" where
  "plain_host = \<lparr>cb_raises = never_raises, json_stringify = Some, json_parse = Some,
                  undefined_value = ''undefined''\<rparr>"

definition idle_tab :: "(nat, string) tab" where
  "idle_tab = \<lparr>callbacks = [''score'' \<mapsto> [1]], queue = Map.empty, storage = Map.empty,
                fired = [], posted = [], calls = [], console = []\<rparr>"

definition busy_tab :: "(nat, string) tab" where
  "busy_tab = idle_tab\<lparr>storage := [prefix @ ''score'' \<mapsto> ''7'']\<rparr>"

section \<open>Properties of the registry\<close>

lemma has_property_own: "obj name = Some v \<Longrightarrow> has_property obj name"
  by (simp add: has_property_def)

lemma has_property_plain: "name \<notin> set inherited \<Longrightarrow> has_property obj name \<longleftrightarrow> obj name \<noteq> None"
  by (simp add: has_property_def)







































section \<open>Properties of the storage transport's send\<close>

text \<open>
  A key made of the prefix and a topic starts with the prefix, stripping the prefix gives
  the topic back, and no such key is a name inherited from \<^verbatim>\<open>Object.prototype\<close>.
\<close>

lemma starts_with_append: "starts_with (p @ t) p"
  by (induction p) auto

lemma str_indexOf_prefixed: "str_indexOf (p @ t) p = 0"
  by (cases "p @ t") (use starts_with_append [of p t] in auto)

lemma str_replace_prefixed: "str_replace (p @ t) p [] = t"
proof (cases "p @ t")
  case Nil
  then show ?thesis by simp
next
  case (Cons a s)
  have "starts_with (a # s) p"
    using starts_with_append [of p t] Cons by simp
  moreover have "drop (length p) (a # s) = t"
    using Cons [symmetric] by simp
  ultimately show ?thesis by (simp add: Cons)
qed

lemma key_not_inherited: "prefix @ topic \<notin> set inherited"
  by (simp add: prefix_def inherited_def)

lemma send_idle:
  assumes "storage st (prefix @ topic) = None" and "json_stringify h d = Some v"
  shows "localStorage_send h st topic d includeSelf =
     (if includeSelf
      then local_broadcast h
             (st\<lparr>fired := fired st @
                  [\<lparr>key = Some (prefix @ topic), oldValue = None, newValue = Some v\<rparr>,
                   \<lparr>key = Some (prefix @ topic), oldValue = Some v, newValue = None\<rparr>]\<rparr>) topic d
      else (st\<lparr>fired := fired st @
                  [\<lparr>key = Some (prefix @ topic), oldValue = None, newValue = Some v\<rparr>,
                   \<lparr>key = Some (prefix @ topic), oldValue = Some v, newValue = None\<rparr>]\<rparr>, Normal))"
proof -
  have "(storage st)(prefix @ topic := None) = storage st"
    using assms(1) by (metis fun_upd_triv)
  then show ?thesis
    using assms by (simp add: localStorage_send_def setItem_def removeItem_def Let_def)
qed

lemma send_busy:
  assumes "storage st (prefix @ topic) \<noteq> None"
  shows "localStorage_send h st topic d includeSelf =
     (st\<lparr>queue := (queue st)(prefix @ topic \<mapsto>
            (case queue st (prefix @ topic) of None \<Rightarrow> [] | Some q \<Rightarrow> q) @ [d])\<rparr>, Normal)"
  using assms key_not_inherited [of topic]
  by (auto simp: localStorage_send_def has_property_def Let_def split: option.splits)

text \<open>
  Claim C5. For data that \<^verbatim>\<open>JSON.stringify\<close> turns into the text \<open>v\<close>, \<^verbatim>\<open>send\<close> on
  the storage transport works on the key \<open>prefix @ topic\<close>. When the slot is empty it
  writes \<open>v\<close> and removes it again, which fires the two events in this order and leaves
  the store as it was, the slot empty; it then calls the local subscribers exactly when
  \<open>includeSelf\<close> is set, and changes nothing else. When the slot is occupied it writes
  nothing and appends the data to the pending queue of that key.
\<close>

theorem send_protocol:
  assumes "json_stringify h d = Some v"
  shows
   "(storage st (prefix @ topic) = None \<longrightarrow>
       fst (localStorage_send h st topic d includeSelf) =
         st\<lparr>fired := fired st @
               [\<lparr>key = Some (prefix @ topic), oldValue = None, newValue = Some v\<rparr>,
                \<lparr>key = Some (prefix @ topic), oldValue = Some v, newValue = None\<rparr>],
            calls := calls st @
               (if includeSelf then fst (broadcast (callbacks st) (cb_raises h) topic d) else [])\<rparr>
     \<and> snd (localStorage_send h st topic d includeSelf) =
         (if includeSelf then snd (broadcast (callbacks st) (cb_raises h) topic d) else Normal)
     \<and> storage (fst (localStorage_send h st topic d includeSelf)) (prefix @ topic) = None)
  \<and> (storage st (prefix @ topic) \<noteq> None \<longrightarrow>
       localStorage_send h st topic d includeSelf =
         (st\<lparr>queue := (queue st)(prefix @ topic \<mapsto>
                (case queue st (prefix @ topic) of None \<Rightarrow> [] | Some q \<Rightarrow> q) @ [d])\<rparr>, Normal))"
proof (cases "storage st (prefix @ topic) = None")
  case True
  show ?thesis
    using True by (simp add: send_idle [OF True assms] local_broadcast_def split: prod.splits)
next
  case False
  have "localStorage_send h st topic d includeSelf =
     (st\<lparr>queue := (queue st)(prefix @ topic \<mapsto>
            (case queue st (prefix @ topic) of None \<Rightarrow> [] | Some q \<Rightarrow> q) @ [d])\<rparr>, Normal)"
    by (rule send_busy [OF False])
  with False show ?thesis by blast
qed

theorem send_protocol_witness:
  "fst (localStorage_send plain_host idle_tab ''score'' ''7'' True) =
     idle_tab\<lparr>fired := [\<lparr>key = Some ''__across-tabs:score'', oldValue = None, newValue = Some ''7''\<rparr>,
                         \<lparr>key = Some ''__across-tabs:score'', oldValue = Some ''7'', newValue = None\<rparr>],
               calls := [(1, ''7'')]\<rparr>
   \<and> snd (localStorage_send plain_host idle_tab ''score'' ''7'' True) = Normal
   \<and> storage (fst (localStorage_send plain_host idle_tab ''score'' ''7'' True)) ''__across-tabs:score'' = None
   \<and> localStorage_send plain_host busy_tab ''score'' ''8'' True =
       (busy_tab\<lparr>queue := [''__across-tabs:score'' \<mapsto> [''8'']]\<rparr>, Normal)"
proof -
  have str: "json_stringify plain_host ''7'' = Some ''7''" "json_stringify plain_host ''8'' = Some ''8''"
    by (simp_all add: plain_host_def)
  have idle: "storage idle_tab (prefix @ ''score'') = None"
    by (simp add: idle_tab_def)
  have busy: "storage busy_tab (prefix @ ''score'') \<noteq> None"
    by (simp add: busy_tab_def idle_tab_def)
  have calls: "fst (broadcast (callbacks idle_tab) (cb_raises plain_host) ''score'' ''7'') = [(1, ''7'')]"
    "snd (broadcast (callbacks idle_tab) (cb_raises plain_host) ''score'' ''7'') = Normal"
    by (simp_all add: idle_tab_def plain_host_def broadcast_def has_property_def never_raises_def)
  have more: "fired idle_tab = []" "calls idle_tab = []" "queue busy_tab (prefix @ ''score'') = None"
     "queue busy_tab = Map.empty"
    by (simp_all add: idle_tab_def busy_tab_def)
  have pre: "prefix @ ''score'' = ''__across-tabs:score''"
    by (simp add: prefix_def)
  show ?thesis
    using send_protocol [OF str(1), of idle_tab "''score''" True]
      send_protocol [OF str(2), of busy_tab "''score''" True]
      idle busy
    by (simp add: calls more pre)
qed

section \<open>Properties of the storage listeners\<close>

text \<open>
  The departure listener looks the queue up under the topic, while \<^verbatim>\<open>send\<close> files the
  data under the key, which is the prefix followed by the topic.
\<close>

lemma departure_misses_queue:
  assumes "queue st topic = None" and "topic \<notin> set inherited"
  shows "departure_listener h st \<lparr>key = Some (prefix @ topic), oldValue = ov, newValue = None\<rparr> = (st, Normal)"
  using assms
  by (simp add: departure_listener_def has_property_def str_indexOf_prefixed str_replace_prefixed)

lemma send_quiet_calls:
  "calls (fst (localStorage_send h st topic d False)) = calls st"
  by (simp add: localStorage_send_def setItem_def removeItem_def Let_def split: option.splits)

lemma send_quiet_calls_result:
  "localStorage_send h st topic d False = (st', r) \<Longrightarrow> calls st' = calls st"
  using send_quiet_calls [of h st topic d] by simp

lemma departure_never_calls:
  "calls (fst (departure_listener h st e)) = calls st"
  by (auto simp: departure_listener_def Let_def split: option.splits prod.splits if_splits
      dest!: send_quiet_calls_result)

text \<open>
  Claim C1, at the input where it fails. The slot of \<open>score\<close> holds the value \<open>7\<close> of
  a send in flight. \<^verbatim>\<open>send('score', '8')\<close> queues \<open>8\<close> under the key
  \<open>__across-tabs:score\<close>. When the departure of that key is notified, the listener
  leaves the tab as it is: nothing is taken off the queue and nothing is written, so
  \<open>8\<close> is never sent.
\<close>

theorem departure_leaves_queued_message:
  "localStorage_send plain_host busy_tab ''score'' ''8'' False =
     (busy_tab\<lparr>queue := [''__across-tabs:score'' \<mapsto> [''8'']]\<rparr>, Normal)
   \<and> departure_listener plain_host
       (busy_tab\<lparr>queue := [''__across-tabs:score'' \<mapsto> [''8'']], storage := Map.empty\<rparr>)
       \<lparr>key = Some ''__across-tabs:score'', oldValue = Some ''7'', newValue = None\<rparr> =
     (busy_tab\<lparr>queue := [''__across-tabs:score'' \<mapsto> [''8'']], storage := Map.empty\<rparr>, Normal)"
  by (simp add: localStorage_send_def departure_listener_def busy_tab_def idle_tab_def prefix_def
      has_property_def inherited_def Let_def)

lemma channel_send_calls:
  "calls (fst (broadcastChannel_send h st topic d includeSelf)) =
     calls st @ (if includeSelf then fst (broadcast (callbacks st) (cb_raises h) topic d) else [])"
  "calls (fst (sharedWorker_send h st topic d includeSelf)) =
     calls st @ (if includeSelf then fst (broadcast (callbacks st) (cb_raises h) topic d) else [])"
  by (simp_all add: broadcastChannel_send_def sharedWorker_send_def local_broadcast_def Let_def
      split: prod.splits)

text \<open>
  Claim C4, at the input where it fails. The tab has a subscriber to \<open>score\<close> and the slot
  of \<open>score\<close> is occupied. \<^verbatim>\<open>send('score', '8', true)\<close> queues the data and calls no
  subscriber; the queue holds the data alone, with no \<^verbatim>\<open>includeSelf\<close>. Whatever the
  state and the event, the departure listener calls no subscriber either, since it calls
  \<^verbatim>\<open>send\<close> with two arguments.
\<close>

theorem queued_send_skips_own_subscribers:
  "callbacks busy_tab ''score'' = Some [1]
   \<and> localStorage_send plain_host busy_tab ''score'' ''8'' True =
       (busy_tab\<lparr>queue := [''__across-tabs:score'' \<mapsto> [''8'']]\<rparr>, Normal)
   \<and> calls (fst (localStorage_send plain_host busy_tab ''score'' ''8'' True)) = []
   \<and> calls (fst (departure_listener h st e)) = calls st"
proof -
  have "callbacks busy_tab ''score'' = Some [1]"
    by (simp add: busy_tab_def idle_tab_def)
  moreover have "localStorage_send plain_host busy_tab ''score'' ''8'' True =
       (busy_tab\<lparr>queue := [''__across-tabs:score'' \<mapsto> [''8'']]\<rparr>, Normal)"
    by (simp add: localStorage_send_def busy_tab_def idle_tab_def prefix_def
        has_property_def inherited_def Let_def)
  moreover from this have "calls (fst (localStorage_send plain_host busy_tab ''score'' ''8'' True)) = []"
    by (simp add: busy_tab_def idle_tab_def)
  ultimately show ?thesis
    by (simp only: departure_never_calls simp_thms)
qed

section \<open>From one tab to another through the store\<close>










section \<open>Properties of the fallback transport, the selector and the export\<close>

text \<open>
  Claim C9, amended. A call of \<^verbatim>\<open>on\<close>, \<^verbatim>\<open>off\<close> or \<^verbatim>\<open>send\<close> of the fallback
  transport never throws and changes nothing but the console: it adds one warning when
  there is a \<^verbatim>\<open>window\<close>, and none in a context without \<^verbatim>\<open>window\<close>.
\<close>

theorem fallback_behaviour:
  "emptyApi env call st =
     (st\<lparr>console := console st @
        (if window env = None then [] else [''across-tabs messaging is not supported.''])\<rparr>, Normal)"
  by (cases call) (simp_all add: noop_def)

theorem fallback_behaviour_witness:
  "emptyApi \<lparr>window = Some [''console''], globals = []\<rparr> (On ''x'' 1) idle_tab =
     (idle_tab\<lparr>console := [''across-tabs messaging is not supported.'']\<rparr>, Normal)"
  using fallback_behaviour [of "\<lparr>window = Some [''console''], globals = []\<rparr>" "On ''x'' 1" idle_tab]
  by (simp add: idle_tab_def)

text \<open>
  Claim C9 as stated fails: in a context without \<^verbatim>\<open>window\<close> the fallback transport is
  the one installed, and a call produces no warning.
\<close>

theorem fallback_behaviour_counterexample:
  "policy \<lparr>window = None, globals = []\<rparr> = emptyApiFactory
   \<and> instantiated (fst (run_module \<lparr>window = None, globals = []\<rparr>)) = [emptyApiFactory]
   \<and> emptyApi \<lparr>window = None, globals = []\<rparr> (Send ''x'' ''1'' False) idle_tab = (idle_tab, Normal)
   \<and> console (fst (emptyApi \<lparr>window = None, globals = []\<rparr> (Send ''x'' ''1'' False) idle_tab)) = []"
  by (simp add: policy_def available_def run_module_def module_body_def declare_const_def
      resolve_def noop_def idle_tab_def)

lemma selected:
  "exec env (hd module_body) \<lparr>scopes = [[]], instantiated = [], exports = None\<rparr> =
     (\<lparr>scopes = [[]], instantiated = [policy env], exports = None\<rparr>, Normal)"
  by (cases "window env")
    (simp_all add: module_body_def policy_def available_def declare_const_def)

lemma export_after_selection:
  "run_module env =
     exec env (AssignExports ''API'') \<lparr>scopes = [[]], instantiated = [policy env], exports = None\<rparr>"
proof -
  have "module_body = [hd module_body, AssignExports ''API'']"
    by (simp add: module_body_def)
  then have "run_module env =
      exec_seq env [hd module_body, AssignExports ''API'']
        \<lparr>scopes = [[]], instantiated = [], exports = None\<rparr>"
    by (simp add: run_module_def)
  then show ?thesis
    by (simp add: selected split: prod.splits)
qed

text \<open>
  Claim C6. Loading the module calls exactly one factory, the one the policy names:
  the BroadcastChannel transport when \<^verbatim>\<open>window\<close> has \<^verbatim>\<open>BroadcastChannel\<close>, else the
  storage transport when it has \<^verbatim>\<open>localStorage\<close>, else the fallback. The SharedWorker
  factory is never called.
\<close>

theorem selector_policy:
  "instantiated (fst (run_module env)) = [policy env]
   \<and> sharedWorkerApiFactory \<notin> set (instantiated (fst (run_module env)))"
  by (simp add: export_after_selection resolve_def policy_def split: option.splits)

theorem selector_policy_witness:
  "instantiated (fst (run_module \<lparr>window = Some [''SharedWorker'', ''localStorage''], globals = []\<rparr>)) =
     [localStorageApiFactory]"
  using selector_policy [of "\<lparr>window = Some [''SharedWorker'', ''localStorage''], globals = []\<rparr>"]
  by (simp add: policy_def available_def)

text \<open>
  Claim C10. Every \<^verbatim>\<open>const API\<close> is bound in the scope of a block that has ended when
  \<^verbatim>\<open>module.exports = API\<close> runs, so the statement finds no binding of \<open>API\<close> in the
  module. Where nothing provides \<^verbatim>\<open>module\<close> it throws a ReferenceError for \<open>module\<close>;
  where \<^verbatim>\<open>module\<close> is provided and the global scope does not bind \<open>API\<close>, reading
  \<open>API\<close> throws a ReferenceError; in both cases nothing is exported. Where the global
  scope binds \<open>API\<close>, that global value is what is exported. In no case is the exported
  value the object a factory returned.
\<close>

theorem export_fails:
  "(''module'' \<notin> set (globals env) \<longrightarrow>
      snd (run_module env) = Throw (ReferenceError ''module'')
      \<and> exports (fst (run_module env)) = None)
   \<and> (''module'' \<in> set (globals env) \<and> ''API'' \<notin> set (globals env) \<longrightarrow>
      snd (run_module env) = Throw (ReferenceError ''API'')
      \<and> exports (fst (run_module env)) = None)
   \<and> (''module'' \<in> set (globals env) \<and> ''API'' \<in> set (globals env) \<longrightarrow>
      snd (run_module env) = Normal
      \<and> exports (fst (run_module env)) = Some (GlobalValue ''API''))
   \<and> exports (fst (run_module env)) \<noteq> Some (Api f)"
  by (simp add: export_after_selection resolve_def)

theorem export_fails_witness:
  "snd (run_module \<lparr>window = Some [''localStorage'', ''console''], globals = [''window'']\<rparr>) =
      Throw (ReferenceError ''module'')
   \<and> snd (run_module \<lparr>window = Some [''localStorage'', ''console''], globals = [''module'', ''window'']\<rparr>) =
      Throw (ReferenceError ''API'')
   \<and> exports (fst (run_module \<lparr>window = Some [''localStorage'', ''console''], globals = [''module'', ''window'']\<rparr>)) = None
   \<and> exports (fst (run_module \<lparr>window = None, globals = [''module'', ''API'']\<rparr>)) = Some (GlobalValue ''API'')"
proof -
  note script = export_fails [of "\<lparr>window = Some [''localStorage'', ''console''], globals = [''window'']\<rparr>" localStorageApiFactory]
  note loaded = export_fails [of "\<lparr>window = Some [''localStorage'', ''console''], globals = [''module'', ''window'']\<rparr>" localStorageApiFactory]
  note shadow = export_fails [of "\<lparr>window = None, globals = [''module'', ''API'']\<rparr>" emptyApiFactory]
  have a: "snd (run_module \<lparr>window = Some [''localStorage'', ''console''], globals = [''window'']\<rparr>) =
      Throw (ReferenceError ''module'')"
    using script by simp
  have b: "snd (run_module \<lparr>window = Some [''localStorage'', ''console''], globals = [''module'', ''window'']\<rparr>) =
      Throw (ReferenceError ''API'')
   \<and> exports (fst (run_module \<lparr>window = Some [''localStorage'', ''console''], globals = [''module'', ''window'']\<rparr>)) = None"
    using loaded by simp
  have c: "exports (fst (run_module \<lparr>window = None, globals = [''module'', ''API'']\<rparr>)) = Some (GlobalValue ''API'')"
    using shadow by simp
  from a b c show ?thesis by blast
qed

end
